theory Spec2Isabelle
  imports Main "HOL-Library.AList" "HOL-Library.Code_Target_Numeral"
begin

section \<open>JavaScript values and the object heap\<close>

text \<open>
  Objects are JSON-like data living in a heap: a value is a primitive or a reference to a
  heap cell, and a cell is a plain object (an ordered list of named properties), an array
  (its elements, and the properties it was given under names that are not indices) or a
  date (its time value, and the properties it was given). Only the properties of an
  object's own are described, not the methods it inherits. A property is addressed by a
  path segment, a name or an array index, as the change records of the diff library do.
  Numbers are whole and exact.
\<close>

datatype jsval =
  JUndefined | JNull | JBool bool | JNum int | JStr string | JRef nat

datatype seg = Key string | Idx nat

datatype jsobj =
  Obj "(string \<times> jsval) list"
  | Arr "jsval list" "(string \<times> jsval) list"
  | DateObj nat "(string \<times> jsval) list"

type_synonym heap = "jsobj list"

text \<open>
  Errors are values: the \<open>{error, message, code}\<close> objects the engine builds, the
  \<open>Error\<close> objects of the store, and the exceptions the JavaScript runtime raises.
  \<open>NotFound ty ident\<close> is the object with error \<open>invalid id\<close> and code 404, whose message
  names the type and the id that were asked for. \<open>Unmodelled\<close> is no error of the program:
  it marks a run that leaves the objects described here for the built-in objects of the
  JavaScript runtime, of which nothing is said.
\<close>

datatype error =
  ErrObj string string nat | NotFound string jsval
  | JsError string | TypeError string | RangeError string
  | Unmodelled string

datatype ckind = N | E | D | A

datatype change =
  Change (kind: ckind) (path: "seg list option") (lhs: jsval) (rhs: jsval)
         (index: nat) (item: "change option")

subsection \<open>Property keys\<close>

fun show_nat :: "nat \<Rightarrow> string" where
  "show_nat n =
     (if n < 10 then [''0123456789'' ! n]
      else show_nat (n div 10) @ [''0123456789'' ! (n mod 10)])"

declare show_nat.simps [simp del]

definition digit_val :: "char \<Rightarrow> nat option" where
  "digit_val c = map_of (zip ''0123456789'' [0 ..< 10]) c"

fun parse_nat :: "nat \<Rightarrow> string \<Rightarrow> nat option" where
  "parse_nat acc [] = Some acc"
| "parse_nat acc (c # cs) =
     (case digit_val c of None \<Rightarrow> None | Some d \<Rightarrow> parse_nat (10 * acc + d) cs)"

text \<open>
  A name is an array index when it is the decimal form of a number below \<open>2\<^sup>3\<^sup>2 - 1\<close>.
\<close>

definition key_index :: "string \<Rightarrow> nat option" where
  "key_index k =
     (if k = [] then None
      else (case parse_nat 0 k of
              None \<Rightarrow> None
            | Some n \<Rightarrow> if show_nat n = k \<and> n < 4294967295 then Some n else None))"

fun seg_key :: "seg \<Rightarrow> string" where
  "seg_key (Key k) = k"
| "seg_key (Idx i) = show_nat i"

fun seg_index :: "seg \<Rightarrow> nat option" where
  "seg_index (Key k) = key_index k"
| "seg_index (Idx i) = (if i < 4294967295 then Some i else None)"

subsection \<open>Numbers written as strings\<close>

text \<open>
  The number a string stands for where a number is wanted, as far as it is a whole number
  that is not negative: the white space around it is dropped; the empty string is 0; after
  \<open>0x\<close>, \<open>0o\<close> or \<open>0b\<close> come digits to the base 16, 8 or 2; anything else is a decimal
  numeral with an optional sign, fraction and exponent. \<open>None\<close>: the string stands for no
  such number.
\<close>

definition is_space :: "char \<Rightarrow> bool" where
  "is_space c = (of_char c \<in> {9, 10, 11, 12, 13, 32, 160 :: nat})"

definition trim :: "string \<Rightarrow> string" where
  "trim s = rev (dropWhile is_space (rev (dropWhile is_space s)))"

definition digit_in :: "nat \<Rightarrow> char \<Rightarrow> nat option" where
  "digit_in b c =
     (case map_of (zip ''0123456789abcdefABCDEF'' ([0 ..< 16] @ [10 ..< 16])) c of
        None \<Rightarrow> None
      | Some d \<Rightarrow> if d < b then Some d else None)"

fun parse_base :: "nat \<Rightarrow> nat \<Rightarrow> string \<Rightarrow> nat option" where
  "parse_base b acc [] = Some acc"
| "parse_base b acc (c # cs) =
     (case digit_in b c of None \<Rightarrow> None | Some d \<Rightarrow> parse_base b (b * acc + d) cs)"

definition radix :: "nat \<Rightarrow> string \<Rightarrow> nat option" where
  "radix b s = (if s = [] then None else parse_base b 0 s)"

definition split_at :: "(char \<Rightarrow> bool) \<Rightarrow> string \<Rightarrow> string \<times> string option" where
  "split_at p s =
     (takeWhile (\<lambda>c. \<not> p c) s,
      case dropWhile (\<lambda>c. \<not> p c) s of [] \<Rightarrow> None | c # cs \<Rightarrow> Some cs)"

definition signed_digits :: "string \<Rightarrow> int option" where
  "signed_digits s =
     (case s of
        [] \<Rightarrow> None
      | c # cs \<Rightarrow>
          if c = CHR ''-'' then map_option (\<lambda>n. - int n) (radix 10 cs)
          else if c = CHR ''+'' then map_option int (radix 10 cs)
          else map_option int (radix 10 s))"

text \<open>A decimal numeral without sign, as its digits and the power of ten they are taken to.\<close>

definition unsigned_decimal :: "string \<Rightarrow> (nat \<times> int) option" where
  "unsigned_decimal s =
     (case split_at (\<lambda>c. c = CHR ''e'' \<or> c = CHR ''E'') s of
        (mantissa, ex) \<Rightarrow>
          (case split_at (\<lambda>c. c = CHR ''.'') mantissa of
             (whole, fraction) \<Rightarrow>
               (let fr = (case fraction of None \<Rightarrow> [] | Some f \<Rightarrow> f)
                in if whole = [] \<and> fr = [] then None
                   else (case parse_base 10 0 (whole @ fr) of
                           None \<Rightarrow> None
                         | Some m \<Rightarrow>
                             (case ex of
                                None \<Rightarrow> Some (m, - int (length fr))
                              | Some e \<Rightarrow>
                                  (case signed_digits e of
                                     None \<Rightarrow> None
                                   | Some k \<Rightarrow> Some (m, k - int (length fr))))))))"

definition whole_number :: "nat \<times> int \<Rightarrow> nat option" where
  "whole_number me =
     (case me of
        (m, e) \<Rightarrow>
          if m = 0 then Some 0
          else if 0 \<le> e then (if e \<le> 10 then Some (m * 10 ^ nat e) else None)
          else if 10 ^ nat (- e) dvd m then Some (m div 10 ^ nat (- e))
          else None)"

definition unsigned_number :: "string \<Rightarrow> nat option" where
  "unsigned_number s =
     (case unsigned_decimal s of
        None \<Rightarrow> None
      | Some me \<Rightarrow>
          (case whole_number me of
             None \<Rightarrow> None
           | Some n \<Rightarrow> if n < 4294967296 then Some n else None))"

definition string_number :: "string \<Rightarrow> nat option" where
  "string_number s =
     (let t = trim s
      in if t = [] then Some 0
         else if take 2 t = ''0x'' \<or> take 2 t = ''0X'' then radix 16 (drop 2 t)
         else if take 2 t = ''0o'' \<or> take 2 t = ''0O'' then radix 8 (drop 2 t)
         else if take 2 t = ''0b'' \<or> take 2 t = ''0B'' then radix 2 (drop 2 t)
         else if hd t = CHR ''-''
              then (case unsigned_number (tl t) of Some 0 \<Rightarrow> Some 0 | _ \<Rightarrow> None)
         else if hd t = CHR ''+'' then unsigned_number (tl t)
         else unsigned_number t)"

text \<open>
  The length an array is given by \<open>arr.length = v\<close>: the number \<open>v\<close> converts to has to be a
  whole number from 0 to \<open>2\<^sup>3\<^sup>2 - 1\<close>, else a RangeError is raised. An object is converted
  by the methods it inherits, which are not described.
\<close>

definition invalid_length :: error where
  "invalid_length = RangeError ''Invalid array length''"

fun to_length :: "jsval \<Rightarrow> error + nat" where
  "to_length JUndefined = Inl invalid_length"
| "to_length JNull = Inr 0"
| "to_length (JBool b) = Inr (if b then 1 else 0)"
| "to_length (JNum n) = (if 0 \<le> n \<and> n < 4294967296 then Inr (nat n) else Inl invalid_length)"
| "to_length (JStr s) =
     (case string_number s of
        None \<Rightarrow> Inl invalid_length
      | Some n \<Rightarrow> if n < 4294967296 then Inr n else Inl invalid_length)"
| "to_length (JRef a) = Inl (Unmodelled ''the conversion of an object to a number'')"

subsection \<open>Reading, writing and deleting a property\<close>

definition nth_or_undefined :: "jsval list \<Rightarrow> nat \<Rightarrow> jsval" where
  "nth_or_undefined xs i = (if i < length xs then xs ! i else JUndefined)"

definition arr_set :: "jsval list \<Rightarrow> nat \<Rightarrow> jsval \<Rightarrow> jsval list" where
  "arr_set xs i v =
     (if i < length xs then xs[i := v]
      else xs @ replicate (i - length xs) JUndefined @ [v])"

definition resize :: "jsval list \<Rightarrow> nat \<Rightarrow> jsval list" where
  "resize xs n = take n xs @ replicate (n - length xs) JUndefined"

definition own :: "(string \<times> jsval) list \<Rightarrow> string \<Rightarrow> jsval" where
  "own ps k = (case map_of ps k of None \<Rightarrow> JUndefined | Some v \<Rightarrow> v)"

text \<open>
  The properties of an object's own. An array has its elements under their indices and
  their number under \<open>length\<close>; writing an element beyond the end lengthens the array,
  writing the length cuts or lengthens it, and the length cannot be deleted. Positions
  that were never written read as \<open>undefined\<close>.
\<close>

fun obj_get :: "jsobj \<Rightarrow> seg \<Rightarrow> jsval" where
  "obj_get (Obj ps) s = own ps (seg_key s)"
| "obj_get (Arr xs ps) s =
     (case seg_index s of
        Some i \<Rightarrow> nth_or_undefined xs i
      | None \<Rightarrow> if seg_key s = ''length'' then JNum (int (length xs)) else own ps (seg_key s))"
| "obj_get (DateObj t ps) s = own ps (seg_key s)"

fun obj_set :: "jsobj \<Rightarrow> seg \<Rightarrow> jsval \<Rightarrow> error + jsobj" where
  "obj_set (Obj ps) s v = Inr (Obj (AList.update (seg_key s) v ps))"
| "obj_set (Arr xs ps) s v =
     (case seg_index s of
        Some i \<Rightarrow> Inr (Arr (arr_set xs i v) ps)
      | None \<Rightarrow>
          if seg_key s = ''length''
          then (case to_length v of Inl e \<Rightarrow> Inl e | Inr n \<Rightarrow> Inr (Arr (resize xs n) ps))
          else Inr (Arr xs (AList.update (seg_key s) v ps)))"
| "obj_set (DateObj t ps) s v = Inr (DateObj t (AList.update (seg_key s) v ps))"

fun obj_delete :: "jsobj \<Rightarrow> seg \<Rightarrow> error + jsobj" where
  "obj_delete (Obj ps) s = Inr (Obj (AList.delete (seg_key s) ps))"
| "obj_delete (Arr xs ps) s =
     (case seg_index s of
        Some i \<Rightarrow> Inr (Arr (if i < length xs then xs[i := JUndefined] else xs) ps)
      | None \<Rightarrow>
          if seg_key s = ''length'' then Inl (TypeError ''Cannot delete property length'')
          else Inr (Arr xs (AList.delete (seg_key s) ps)))"
| "obj_delete (DateObj t ps) s = Inr (DateObj t (AList.delete (seg_key s) ps))"

text \<open>The properties a \<open>for ... in\<close> loop visits.\<close>

definition named :: "(string \<times> jsval) list \<Rightarrow> (seg \<times> jsval) list" where
  "named ps = map (\<lambda>(k, v). (Key k, v)) ps"

fun enumerate_props :: "jsobj \<Rightarrow> (seg \<times> jsval) list" where
  "enumerate_props (Obj ps) = named ps"
| "enumerate_props (Arr xs ps) = zip (map Idx [0 ..< length xs]) xs @ named ps"
| "enumerate_props (DateObj t ps) = named ps"

definition alloc :: "heap \<Rightarrow> jsobj \<Rightarrow> nat \<times> heap" where
  "alloc h obj = (length h, h @ [obj])"

text \<open>
  \<open>v[k]\<close>: reading a property of \<open>undefined\<close> or \<open>null\<close> raises a TypeError; a string has
  its characters and its length; other primitives have no data properties.
\<close>

fun js_get :: "heap \<Rightarrow> jsval \<Rightarrow> seg \<Rightarrow> error + jsval" where
  "js_get h JUndefined s = Inl (TypeError ''Cannot read property of undefined'')"
| "js_get h JNull s = Inl (TypeError ''Cannot read property of null'')"
| "js_get h (JRef a) s = Inr (if a < length h then obj_get (h ! a) s else JUndefined)"
| "js_get h (JStr str) s =
     Inr (case seg_index s of
            Some i \<Rightarrow> if i < length str then JStr [str ! i] else JUndefined
          | None \<Rightarrow> if seg_key s = ''length'' then JNum (int (length str)) else JUndefined)"
| "js_get h v s = Inr JUndefined"

text \<open>
  \<open>v[k] = x\<close> in strict-mode code: a TypeError on \<open>undefined\<close>, \<open>null\<close> and on primitives.
\<close>

fun js_set :: "heap \<Rightarrow> jsval \<Rightarrow> seg \<Rightarrow> jsval \<Rightarrow> error + heap" where
  "js_set h (JRef a) s x =
     (if a < length h
      then (case obj_set (h ! a) s x of Inl e \<Rightarrow> Inl e | Inr obj \<Rightarrow> Inr (h[a := obj]))
      else Inr h)"
| "js_set h v s x = Inl (TypeError ''Cannot set property'')"

text \<open>
  \<open>delete v[k]\<close> in strict-mode code: a TypeError on \<open>undefined\<close> and \<open>null\<close> and on the
  characters and the length of a string, nothing to do on another primitive.
\<close>

fun js_delete :: "heap \<Rightarrow> jsval \<Rightarrow> seg \<Rightarrow> error + heap" where
  "js_delete h (JRef a) s =
     (if a < length h
      then (case obj_delete (h ! a) s of Inl e \<Rightarrow> Inl e | Inr obj \<Rightarrow> Inr (h[a := obj]))
      else Inr h)"
| "js_delete h JUndefined s = Inl (TypeError ''Cannot convert undefined or null to object'')"
| "js_delete h JNull s = Inl (TypeError ''Cannot convert undefined or null to object'')"
| "js_delete h (JStr str) s =
     (case seg_index s of
        Some i \<Rightarrow> if i < length str then Inl (TypeError ''Cannot delete property'') else Inr h
      | None \<Rightarrow>
          if seg_key s = ''length'' then Inl (TypeError ''Cannot delete property length'')
          else Inr h)"
| "js_delete h v s = Inr h"

section \<open>The async library: each\<close>

text \<open>
  Modelled from the spec: the library \<open>async\<close>, whose \<open>each\<close> and \<open>series\<close> the sources
  call, is not among them. The spec has a fan-out invoke every adapter, succeed only if
  all succeed and surface the first error encountered.

  \<open>async.each(arr, iterator, callback)\<close> starts the iterator on every element, in array
  order, whatever the earlier ones report. The final callback runs once: with the first
  error that is reported, or with no error once every iterator has reported success.
  What an iterator reports is an outcome: the tick at which it calls back and the error it
  passes, if any. Synchronous callbacks have tick 0, and among reports of the same tick
  the earlier element comes first. Every iterator is taken to report.
\<close>

type_synonym outcome = "nat \<times> error option"

fun earliest :: "outcome list \<Rightarrow> (nat \<times> error) option" where
  "earliest [] = None"
| "earliest ((t, None) # rs) = earliest rs"
| "earliest ((t, Some e) # rs) =
     (case earliest rs of
        None \<Rightarrow> Some (t, e)
      | Some (t', e') \<Rightarrow> if t' < t then Some (t', e') else Some (t, e))"

definition async_each :: "outcome list \<Rightarrow> outcome" where
  "async_each rs =
     (case earliest rs of
        None \<Rightarrow> (fold max (map fst rs) 0, None)
      | Some (t, e) \<Rightarrow> (t, Some e))"

section \<open>The multi-driver store (datastore/index.js)\<close>

datatype meta = Meta (fields: jsval) (diff: "change list option")

record audit_entry =
  createdAt :: nat
  entry_action :: "string option"
  entry_type :: "string option"
  objectId :: jsval
  entry_meta :: "meta option"

datatype payload = ObjectPayload jsval | AuditPayload audit_entry

datatype criteria = ById jsval | ByQuery jsval | ByLogKey string jsval

datatype read_options = EmptyOptions | ViewOptions jsval | LogOptions "(string \<times> int) list" int

datatype json =
  JsonNull | JsonBool bool | JsonNum int | JsonStr string | JsonDate nat
  | JsonArr "json list" | JsonObj "(string \<times> json) list"

text \<open>What a driver was asked to do; every invocation is recorded on the driver.\<close>

datatype call =
  ReadCall string string criteria read_options
  | PutCall string payload
  | DeleteCall string jsval

text \<open>
  A driver is an adapter object: its \<open>options.authoritative\<close> tag (absent: \<open>None\<close>), the
  state of its backend, and its methods. A write reports an outcome to the callback it is
  given; a read reports an error or the data it found. The heap is handed to \<open>put\<close> so that
  the driver can read the object it is to store.
\<close>

record 's driver =
  authoritative :: "string option"
  dstate :: 's
  calls :: "call list"
  read_fn :: "string \<Rightarrow> string \<Rightarrow> criteria \<Rightarrow> read_options \<Rightarrow> 's \<Rightarrow> (error + json) \<times> 's"
  put_fn :: "string \<Rightarrow> payload \<Rightarrow> heap \<Rightarrow> 's \<Rightarrow> outcome \<times> 's"
  delete_fn :: "string \<Rightarrow> jsval \<Rightarrow> 's \<Rightarrow> outcome \<times> 's"

record 's DataStore =
  idField :: string
  drivers :: "'s driver list"
  loggers :: "'s driver list"
  create :: "string \<Rightarrow> json option"

fun split_on :: "char \<Rightarrow> string \<Rightarrow> string list" where
  "split_on c [] = [[]]"
| "split_on c (x # xs) =
     (if x = c then [] # split_on c xs
      else (case split_on c xs of [] \<Rightarrow> [[x]] | p # ps \<Rightarrow> (x # p) # ps))"

definition authorities :: "'s driver \<Rightarrow> string list" where
  "authorities obj =
     (case authoritative obj of
        None \<Rightarrow> []
      | Some tag \<Rightarrow> if tag = [] then [] else split_on CHR '','' tag)"

text \<open>\<open>_getAuthoritative\<close>: the position of the first handler whose tag lists the operation.\<close>

fun getAuthoritative :: "'s driver list \<Rightarrow> string \<Rightarrow> nat option" where
  "getAuthoritative [] operation = None"
| "getAuthoritative (obj # array) operation =
     (if operation \<in> set (authorities obj) then Some 0
      else map_option Suc (getAuthoritative array operation))"

definition driver_read ::
  "string \<Rightarrow> string \<Rightarrow> criteria \<Rightarrow> read_options \<Rightarrow> 's driver \<Rightarrow> (error + json) \<times> 's driver" where
  "driver_read operation ty crit options d =
     (let (r, s') = read_fn d operation ty crit options (dstate d)
      in (r, d\<lparr>dstate := s', calls := calls d @ [ReadCall operation ty crit options]\<rparr>))"

definition handleReadOperation ::
  "string \<Rightarrow> 's driver list \<Rightarrow> string \<Rightarrow> criteria \<Rightarrow> read_options
     \<Rightarrow> (error + json) \<times> 's driver list" where
  "handleReadOperation operation handlers ty crit options =
     (case getAuthoritative handlers operation of
        None \<Rightarrow> (Inl (JsError ''No drivers available.''), handlers)
      | Some i \<Rightarrow>
          (let (r, d') = driver_read operation ty crit options (handlers ! i)
           in (r, handlers[i := d'])))"

definition driver_put :: "string \<Rightarrow> payload \<Rightarrow> heap \<Rightarrow> 's driver \<Rightarrow> outcome \<times> 's driver" where
  "driver_put ty obj h d =
     (let (r, s') = put_fn d ty obj h (dstate d)
      in (r, d\<lparr>dstate := s', calls := calls d @ [PutCall ty obj]\<rparr>))"

definition driver_delete :: "string \<Rightarrow> jsval \<Rightarrow> 's driver \<Rightarrow> outcome \<times> 's driver" where
  "driver_delete ty ident d =
     (let (r, s') = delete_fn d ty ident (dstate d)
      in (r, d\<lparr>dstate := s', calls := calls d @ [DeleteCall ty ident]\<rparr>))"

text \<open>
  \<open>DataStore.prototype.log\<close>: the entry is built from the time stamp, the defaults (all
  \<open>null\<close>) and the options given, an option that is \<open>undefined\<close> leaving the default; every
  logger is handed the entry.
\<close>

definition make_entry :: "nat \<Rightarrow> string \<Rightarrow> string \<Rightarrow> jsval \<Rightarrow> meta option \<Rightarrow> audit_entry" where
  "make_entry now act ty oid m =
     \<lparr>createdAt = now, entry_action = Some act, entry_type = Some ty,
      objectId = (if oid = JUndefined then JNull else oid), entry_meta = m\<rparr>"

definition DataStore_log ::
  "'s DataStore \<Rightarrow> audit_entry \<Rightarrow> heap \<Rightarrow> outcome \<times> 's DataStore" where
  "DataStore_log self auditLogEntry h =
     (let rs = map (driver_put ''auditlogentry'' (AuditPayload auditLogEntry) h) (loggers self)
      in (async_each (map fst rs), self\<lparr>loggers := map snd rs\<rparr>))"

text \<open>
  What a write leaves behind: the error passed to the caller's callback (\<open>None\<close>: success),
  an exception raised after that callback has run, and the store.
\<close>

record 's written =
  reported :: "error option"
  raised :: "error option"
  store :: "'s DataStore"

text \<open>
  \<open>DataStore.prototype.put\<close>: every driver is started on the object; the caller's callback
  gets what \<open>async.each\<close> reports; after it, the audit entry is logged, and the callback of
  the logging does nothing. Reading the id field of \<open>undefined\<close> or \<open>null\<close> raises.
  The call is taken with all its arguments, a \<open>meta\<close> that is absent being \<open>None\<close>.
\<close>

definition DataStore_put ::
  "'s DataStore \<Rightarrow> nat \<Rightarrow> string \<Rightarrow> jsval \<Rightarrow> meta option \<Rightarrow> heap \<Rightarrow> 's written" where
  "DataStore_put self now ty object m h =
     (let rs = map (driver_put ty (ObjectPayload object) h) (drivers self);
          err = snd (async_each (map fst rs));
          self1 = self\<lparr>drivers := map snd rs\<rparr>
      in (case js_get h object (Key (idField self)) of
            Inl e \<Rightarrow> \<lparr>reported = err, raised = Some e, store = self1\<rparr>
          | Inr oid \<Rightarrow>
              \<lparr>reported = err, raised = None,
               store = snd (DataStore_log self1 (make_entry now ''put'' ty oid m) h)\<rparr>))"

definition DataStore_delete ::
  "'s DataStore \<Rightarrow> nat \<Rightarrow> string \<Rightarrow> jsval \<Rightarrow> meta option \<Rightarrow> heap \<Rightarrow> 's written" where
  "DataStore_delete self now ty ident m h =
     (let rs = map (driver_delete ty ident) (drivers self);
          err = snd (async_each (map fst rs));
          self1 = self\<lparr>drivers := map snd rs\<rparr>
      in \<lparr>reported = err, raised = None,
          store = snd (DataStore_log self1 (make_entry now ''delete'' ty ident m) h)\<rparr>)"

text \<open>The reads bound in the constructor, and \<open>getLog\<close>, which reads from the loggers.\<close>

definition DataStore_read ::
  "string \<Rightarrow> 's DataStore \<Rightarrow> string \<Rightarrow> criteria \<Rightarrow> read_options \<Rightarrow> (error + json) \<times> 's DataStore" where
  "DataStore_read operation self ty crit options =
     (let (r, ds) = handleReadOperation operation (drivers self) ty crit options
      in (r, self\<lparr>drivers := ds\<rparr>))"

definition DataStore_get ::
  "'s DataStore \<Rightarrow> string \<Rightarrow> criteria \<Rightarrow> read_options \<Rightarrow> (error + json) \<times> 's DataStore" where
  "DataStore_get = DataStore_read ''get''"

definition DataStore_query ::
  "'s DataStore \<Rightarrow> string \<Rightarrow> criteria \<Rightarrow> read_options \<Rightarrow> (error + json) \<times> 's DataStore" where
  "DataStore_query = DataStore_read ''query''"

definition DataStore_search ::
  "'s DataStore \<Rightarrow> string \<Rightarrow> criteria \<Rightarrow> read_options \<Rightarrow> (error + json) \<times> 's DataStore" where
  "DataStore_search = DataStore_read ''search''"

definition DataStore_getLog ::
  "'s DataStore \<Rightarrow> string \<Rightarrow> jsval \<Rightarrow> read_options \<Rightarrow> (error + json) \<times> 's DataStore" where
  "DataStore_getLog self ty ident options =
     (let (r, ls) = handleReadOperation ''query'' (loggers self) ''auditlogentry''
                      (ByLogKey ty ident) options
      in (r, self\<lparr>loggers := ls\<rparr>))"

text \<open>
  A driver stub for concrete runs: it stores what it is given unless it is set to fail,
  and it answers every read with the same data.
\<close>

definition stub_driver ::
  "string option \<Rightarrow> outcome \<Rightarrow> json \<Rightarrow> (string \<times> payload) list driver" where
  "stub_driver tag out found =
     \<lparr>authoritative = tag, dstate = [], calls = [],
      read_fn = (\<lambda>operation ty crit options s. (Inr found, s)),
      put_fn = (\<lambda>ty obj h s. (out, if snd out = None then s @ [(ty, obj)] else s)),
      delete_fn = (\<lambda>ty ident s. (out, if snd out = None then filter (\<lambda>(t, p). t \<noteq> ty) s else s))\<rparr>"

section \<open>The extend library: deep copy\<close>

text \<open>
  Modelled from the spec: the library \<open>extend\<close>, with which the sources copy objects, is
  not among them. The spec has the changes applied to a deep copy of the current object.

  \<open>extend(true, target, options)\<close> merges the properties of \<open>options\<close> into \<open>target\<close>. A
  property that holds a plain object or an array is not moved: it is merged, by a nested
  call, into the object of the same sort that the target has under that name, or into a
  new empty one. A property that is \<open>undefined\<close> is skipped, any other value is assigned:
  a date is not copied, the target is given the date of \<open>options\<close> itself.
  The nesting of the calls is bounded by the call stack; running out of it is a RangeError,
  which leaves what was built so far behind as garbage.
\<close>

fun empty_like :: "jsobj \<Rightarrow> jsobj" where
  "empty_like (Arr xs ps) = Arr [] []"
| "empty_like obj = Obj []"

fun same_sort :: "jsobj \<Rightarrow> jsobj \<Rightarrow> bool" where
  "same_sort (Obj ps) (Obj qs) = True"
| "same_sort (Arr xs ps) (Arr ys qs) = True"
| "same_sort x y = False"

text \<open>What \<open>extend\<close> copies in depth: plain objects and arrays, not dates.\<close>

fun plain :: "jsobj \<Rightarrow> bool" where
  "plain (DateObj t ps) = False"
| "plain obj = True"

definition clone_for :: "heap \<Rightarrow> jsval \<Rightarrow> jsobj \<Rightarrow> nat \<times> heap" where
  "clone_for h src copied =
     (case src of
        JRef s \<Rightarrow> if s < length h \<and> same_sort (h ! s) copied then (s, h)
                  else alloc h (empty_like copied)
      | _ \<Rightarrow> alloc h (empty_like copied))"

definition get_prop :: "heap \<Rightarrow> nat \<Rightarrow> seg \<Rightarrow> jsval" where
  "get_prop h a s = (if a < length h then obj_get (h ! a) s else JUndefined)"

fun extend_props :: "nat \<Rightarrow> nat \<Rightarrow> (seg \<times> jsval) list \<Rightarrow> heap \<Rightarrow> error + heap" where
  "extend_props fuel target [] h = Inr h"
| "extend_props fuel target ((name, copy) # rest) h =
     (if copy = JRef target then extend_props fuel target rest h
      else (case copy of
              JUndefined \<Rightarrow> extend_props fuel target rest h
            | JRef a \<Rightarrow>
                (if a < length h \<and> plain (h ! a) then
                   (case fuel of
                      0 \<Rightarrow> Inl (RangeError ''Maximum call stack size exceeded'')
                    | Suc fuel' \<Rightarrow>
                        (case clone_for h (get_prop h target name) (h ! a) of
                           (clone, h1) \<Rightarrow>
                             (case extend_props fuel' clone (enumerate_props (h ! a)) h1 of
                                Inl e \<Rightarrow> Inl e
                              | Inr h2 \<Rightarrow>
                                  (case js_set h2 (JRef target) name (JRef clone) of
                                     Inl e \<Rightarrow> Inl e
                                   | Inr h3 \<Rightarrow> extend_props fuel target rest h3))))
                 else (case js_set h (JRef target) name copy of
                         Inl e \<Rightarrow> Inl e
                       | Inr h1 \<Rightarrow> extend_props fuel target rest h1))
            | v \<Rightarrow>
                (case js_set h (JRef target) name v of
                   Inl e \<Rightarrow> Inl e
                 | Inr h1 \<Rightarrow> extend_props fuel target rest h1)))"

text \<open>\<open>extend(true, {}, options)\<close>: the new target and the heap, or the exception.\<close>

definition extend_deep :: "nat \<Rightarrow> heap \<Rightarrow> jsval \<Rightarrow> (error + nat) \<times> heap" where
  "extend_deep fuel h options =
     (case alloc h (Obj []) of
        (target, h1) \<Rightarrow>
          (case options of
             JRef a \<Rightarrow>
               (if a < length h then
                  (case extend_props fuel target (enumerate_props (h ! a)) h1 of
                     Inl e \<Rightarrow> (Inl e, h1)
                   | Inr h2 \<Rightarrow> (Inr target, h2))
                else (Inr target, h1))
           | JStr str \<Rightarrow>
               (case extend_props fuel target
                       (zip (map Idx [0 ..< length str]) (map (\<lambda>c. JStr [c]) str)) h1 of
                  Inl e \<Rightarrow> (Inl e, h1)
                | Inr h2 \<Rightarrow> (Inr target, h2))
           | _ \<Rightarrow> (Inr target, h1)))"

section \<open>The deep-diff library: applying a change\<close>

text \<open>
  Modelled from the spec: the library \<open>deep-diff\<close>, whose \<open>applyChange\<close> the sources call
  for every change, is not among them. The spec has a change carry a kind (add, update,
  delete, array splice), a path and the new value, and has a path that does not exist in
  the target created rather than refused.

  \<open>applyChange(target, source, change)\<close> walks the path of the change from the target,
  creating the containers that are missing on the way, and at the last segment assigns the
  right-hand side (kinds N and E), deletes the property (kind D) or applies the item of the
  change to the array found there (kind A).
\<close>

fun descend :: "heap \<Rightarrow> jsval \<Rightarrow> seg list \<Rightarrow> error + jsval" where
  "descend h it [] = Inr it"
| "descend h it (k # ks) =
     (case js_get h it k of Inl e \<Rightarrow> Inl e | Inr v \<Rightarrow> descend h v ks)"

fun fresh_container :: "seg \<Rightarrow> jsobj" where
  "fresh_container (Idx i) = Arr [] []"
| "fresh_container (Key k) = Obj []"

fun descend_create :: "heap \<Rightarrow> jsval \<Rightarrow> seg list \<Rightarrow> (error + jsval) \<times> heap" where
  "descend_create h it [] = (Inr it, h)"
| "descend_create h it (k # ks) =
     (case js_get h it k of
        Inl e \<Rightarrow> (Inl e, h)
      | Inr v \<Rightarrow>
          (if v = JUndefined then
             (case alloc h (fresh_container k) of
                (a, h1) \<Rightarrow>
                  (case js_set h1 it k (JRef a) of
                     Inl e \<Rightarrow> (Inl e, h1)
                   | Inr h2 \<Rightarrow>
                       (case js_get h2 it k of
                          Inl e \<Rightarrow> (Inl e, h2)
                        | Inr v' \<Rightarrow> descend_create h2 v' ks)))
           else descend_create h v ks))"

text \<open>\<open>arrayRemove(arr, from)\<close>: only an array has \<open>slice\<close>.\<close>

definition arrayRemove :: "heap \<Rightarrow> jsval \<Rightarrow> nat \<Rightarrow> error option \<times> heap" where
  "arrayRemove h arr from =
     (case arr of
        JRef a \<Rightarrow>
          (if a < length h then
             (case h ! a of
                Arr xs ps \<Rightarrow>
                  (None, h[a := Arr (take from xs @ replicate (from - length xs) JUndefined
                                       @ drop (Suc from) xs) ps])
              | _ \<Rightarrow> (Some (TypeError ''arr.slice is not a function''), h))
           else (Some (TypeError ''arr.slice is not a function''), h))
      | _ \<Rightarrow> (Some (TypeError ''arr.slice is not a function''), h))"

definition assign :: "heap \<Rightarrow> jsval \<Rightarrow> seg \<Rightarrow> jsval \<Rightarrow> error option \<times> heap" where
  "assign h it k v = (case js_set h it k v of Inl e \<Rightarrow> (Some e, h) | Inr h' \<Rightarrow> (None, h'))"

definition remove :: "heap \<Rightarrow> jsval \<Rightarrow> seg \<Rightarrow> error option \<times> heap" where
  "remove h it k = (case js_delete h it k of Inl e \<Rightarrow> (Some e, h) | Inr h' \<Rightarrow> (None, h'))"

fun applyArrayChange :: "heap \<Rightarrow> jsval \<Rightarrow> nat \<Rightarrow> change option \<Rightarrow> error option \<times> heap" where
  "applyArrayChange h arr ix None =
     (Some (TypeError ''Cannot read property path of undefined''), h)"
| "applyArrayChange h arr ix (Some (Change k p l r jx itm)) =
     (case p of
        Some (s # ss) \<Rightarrow>
          (case js_get h arr (Idx ix) of
             Inl e \<Rightarrow> (Some e, h)
           | Inr it0 \<Rightarrow>
               (case descend h it0 (butlast (s # ss)) of
                  Inl e \<Rightarrow> (Some e, h)
                | Inr it \<Rightarrow>
                    (case k of
                       A \<Rightarrow> (case js_get h it (last (s # ss)) of
                               Inl e \<Rightarrow> (Some e, h)
                             | Inr v \<Rightarrow> applyArrayChange h v jx itm)
                     | D \<Rightarrow> remove h it (last (s # ss))
                     | _ \<Rightarrow> assign h it (last (s # ss)) r)))
      | _ \<Rightarrow>
          (case k of
             A \<Rightarrow> (case js_get h arr (Idx ix) of
                     Inl e \<Rightarrow> (Some e, h)
                   | Inr v \<Rightarrow> applyArrayChange h v jx itm)
           | D \<Rightarrow> arrayRemove h arr ix
           | _ \<Rightarrow> assign h arr (Idx ix) r))"

text \<open>
  The last step of \<open>applyChange\<close> at the object \<open>it\<close> and the key \<open>key\<close>.
\<close>

definition apply_at :: "heap \<Rightarrow> jsval \<Rightarrow> seg \<Rightarrow> change \<Rightarrow> error option \<times> heap" where
  "apply_at h it key c =
     (case kind c of
        A \<Rightarrow> (case js_get h it key of
                Inl e \<Rightarrow> (Some e, h)
              | Inr v \<Rightarrow> applyArrayChange h v (index c) (item c))
      | D \<Rightarrow> remove h it key
      | _ \<Rightarrow> assign h it key (rhs c))"

text \<open>
  Without a path the loop is skipped: kind A works on the target itself, the other kinds
  read \<open>change.path[0]\<close> of \<open>undefined\<close>. With an empty path the key is \<open>undefined\<close>, which
  names the property \<open>''undefined''\<close>.
\<close>

definition applyChange :: "heap \<Rightarrow> jsval \<Rightarrow> change \<Rightarrow> error option \<times> heap" where
  "applyChange h target c =
     (case path c of
        None \<Rightarrow>
          (case kind c of
             A \<Rightarrow> applyArrayChange h target (index c) (item c)
           | _ \<Rightarrow> (Some (TypeError ''Cannot read property 0 of undefined''), h))
      | Some [] \<Rightarrow> apply_at h target (Key ''undefined'') c
      | Some (s # ss) \<Rightarrow>
          (case descend_create h target (butlast (s # ss)) of
             (Inl e, h1) \<Rightarrow> (Some e, h1)
           | (Inr it, h1) \<Rightarrow> apply_at h1 it (last (s # ss)) c))"

section \<open>The engine (index.js)\<close>

subsection \<open>Operation context, rules and the engine object\<close>

text \<open>
  The operation context is the \<open>opts\<close> object of a call. A property that is absent is
  \<open>undefined\<close>: \<open>JUndefined\<close> for a value, \<open>None\<close> for \<open>changes\<close>, \<open>limit\<close> and the
  properties that only the rule checks add (\<open>action\<close>, \<open>field\<close>, \<open>change\<close>).
\<close>

record opts =
  type :: string
  id' :: jsval
  results :: jsval
  overlay :: jsval
  changes :: "change list option"
  updated :: jsval
  meta :: jsval
  allowMissing :: bool
  creating :: bool
  limit :: "int option"
  action :: "string option"
  field :: "string option"
  change :: "change option"

text \<open>A rule is called with the context and reports to the callback it is given.\<close>

type_synonym rule = "opts \<Rightarrow> heap \<Rightarrow> outcome"

text \<open>
  \<open>self.rules[type][action][field]\<close>: the registry is made of plain objects nested three
  deep and keyed by strings, the field \<open>null\<close> being the key \<open>''null''\<close>. \<open>rules\<close> holds the
  properties of the registry's own, \<open>None\<close> where there is none. The events that were
  emitted are kept with the engine, each under its name: \<open>updated\<close>, \<open>updated.\<close> followed by
  the type, or that followed by a dot and the id.
\<close>

datatype event_name = Updated | UpdatedType string | UpdatedTypeId string jsval

record 's Objecticon =
  strict :: bool
  rules :: "string \<Rightarrow> string \<Rightarrow> string \<Rightarrow> rule list option"
  ds :: "'s DataStore"
  emitted :: "(event_name \<times> jsval) list"

text \<open>
  What a stage of a pipeline does with its callback: it calls it without an error, calls
  it with one, or raises an exception instead.
\<close>

datatype signal = Continue | Failed error | Thrown error

record 's world =
  engine :: "'s Objecticon"
  ctx :: opts
  mem :: heap
  clock :: nat
  next_uuid :: string
  stack_limit :: nat

type_synonym 's stage = "'s world \<Rightarrow> signal \<times> 's world"

text \<open>
  Modelled from the spec: \<open>async.series\<close>, of the same library. The spec has each stage of
  a pipeline run in order and the failure of a stage end the pipeline.
\<close>

fun async_series :: "'s stage list \<Rightarrow> 's stage" where
  "async_series [] w = (Continue, w)"
| "async_series (task # tasks) w =
     (case task w of
        (Continue, w') \<Rightarrow> async_series tasks w'
      | (sig, w') \<Rightarrow> (sig, w'))"

text \<open>
  The characters of a string are those of Latin-1, the code points 0 to 255. On them
  \<open>String.prototype.toLowerCase\<close> moves the letters A to Z and the capital letters from
  U+00C0 to U+00DE, the multiplication sign U+00D7 apart, 32 places on, which sets one bit
  of the code point, and leaves every other character as it is.
\<close>

definition lower_char :: "char \<Rightarrow> char" where
  "lower_char c =
     (let n = of_char c :: nat
      in if (65 \<le> n \<and> n \<le> 90) \<or> (192 \<le> n \<and> n \<le> 222 \<and> n \<noteq> 215)
         then (case c of Char b0 b1 b2 b3 b4 b5 b6 b7 \<Rightarrow> Char b0 b1 b2 b3 b4 True b6 b7)
         else c)"

definition toLowerCase :: "string \<Rightarrow> string" where
  "toLowerCase str = map lower_char str"

fun field_key :: "string option \<Rightarrow> string" where
  "field_key None = ''null''"
| "field_key (Some f) = f"

text \<open>\<open>opts.field || null\<close>: an empty field name counts as none.\<close>

fun field_or_null :: "string option \<Rightarrow> string option" where
  "field_or_null None = None"
| "field_or_null (Some f) = (if f = [] then None else Some f)"

definition truthy :: "jsval \<Rightarrow> bool" where
  "truthy v =
     (case v of
        JUndefined \<Rightarrow> False | JNull \<Rightarrow> False | JBool b \<Rightarrow> b
      | JNum n \<Rightarrow> n \<noteq> 0 | JStr str \<Rightarrow> str \<noteq> [] | _ \<Rightarrow> True)"

subsection \<open>The rule engine\<close>

definition permission_denied :: error where
  "permission_denied =
     ErrObj ''permission denied'' ''You do not have the required permissions.'' 400"

text \<open>
  What every plain object inherits from \<open>Object.prototype\<close>: under each of these names a
  function, given here by its \<open>length\<close>, and under \<open>__proto__\<close> the prototype itself, which
  has no \<open>length\<close>.
\<close>

definition object_prototype :: "(string \<times> nat option) list" where
  "object_prototype =
     [(''constructor'', Some 1), (''__defineGetter__'', Some 2), (''__defineSetter__'', Some 2),
      (''hasOwnProperty'', Some 1), (''__lookupGetter__'', Some 1), (''__lookupSetter__'', Some 1),
      (''isPrototypeOf'', Some 1), (''propertyIsEnumerable'', Some 1), (''toString'', Some 0),
      (''valueOf'', Some 0), (''__proto__'', None), (''toLocaleString'', Some 0)]"

definition inherited :: "string \<Rightarrow> bool" where
  "inherited name = (name \<in> set (map fst object_prototype))"

text \<open>
  \<open>self.rules[type][action][field] || []\<close>: the list of rules that is the registry's own
  property, else what the innermost object inherits under the name of the field, else the
  empty list.
\<close>

datatype bucket = Rules "rule list" | Inherited "nat option"

definition lookup_rules :: "'s Objecticon \<Rightarrow> string \<Rightarrow> string \<Rightarrow> string \<Rightarrow> bucket" where
  "lookup_rules slf ty act name =
     (case rules slf ty act name of
        Some rs \<Rightarrow> Rules rs
      | None \<Rightarrow> (case map_of object_prototype name of
                  Some found \<Rightarrow> Inherited found
                | None \<Rightarrow> Rules []))"

fun bucket_length :: "bucket \<Rightarrow> nat option" where
  "bucket_length (Rules rs) = Some (length rs)"
| "bucket_length (Inherited len) = len"

text \<open>
  \<open>async.each(rules, function(rule, next) { rule(opts, next); }, callback)\<close>. Handed a
  function instead of an array, \<open>async.each\<close> goes by its \<open>length\<close>: with length 0, or with
  none, the callback is called at once; otherwise the elements, which are \<open>undefined\<close>, are
  called as rules, which raises a TypeError.
\<close>

fun each_rule :: "bucket \<Rightarrow> opts \<Rightarrow> heap \<Rightarrow> nat \<times> signal" where
  "each_rule (Rules rs) opts h =
     (case async_each (map (\<lambda>rule. rule opts h) rs) of
        (t, None) \<Rightarrow> (t, Continue)
      | (t, Some e) \<Rightarrow> (t, Failed e))"
| "each_rule (Inherited (Some (Suc n))) opts h = (0, Thrown (TypeError ''rule is not a function''))"
| "each_rule (Inherited len) opts h = (0, Continue)"

text \<open>
  \<open>_checkRules\<close>. The names of the type and of the action are looked up in the registry in
  lower case. Under a name that the registry inherits, which in lower case is \<open>constructor\<close>
  or \<open>__proto__\<close>, the code finds a built-in object in place of a part of the registry and
  goes on inside it: such a check is \<open>Unmodelled\<close>.
\<close>

definition checkRules :: "'s Objecticon \<Rightarrow> opts \<Rightarrow> heap \<Rightarrow> nat \<times> signal" where
  "checkRules slf opts h =
     (case action opts of
        None \<Rightarrow> (0, Thrown (TypeError ''Cannot read property toLowerCase of undefined''))
      | Some act \<Rightarrow>
          (let ty = toLowerCase (type opts);
               act' = toLowerCase act;
               fld = field_or_null (field opts)
           in if inherited ty \<or> inherited act'
              then (0, Thrown (Unmodelled ''the registry of a built-in object''))
              else (let rs = lookup_rules slf ty act' (field_key fld)
                    in if fld = None \<and> strict slf \<and> bucket_length rs = Some 0
                       then (0, Failed permission_denied)
                       else each_rule rs opts h)))"

definition checkTypeRules :: "string \<Rightarrow> 's stage" where
  "checkTypeRules act w =
     (snd (checkRules (engine w) ((ctx w)\<lparr>action := Some act\<rparr>) (mem w)), w)"

fun join_with :: "string \<Rightarrow> string list \<Rightarrow> string" where
  "join_with sep [] = []"
| "join_with sep [x] = x"
| "join_with sep (x # y # ys) = x @ sep @ join_with sep (y # ys)"

text \<open>
  The check of one change: its field is \<open>change.path.join('.')\<close>, which raises when the
  change has no path.
\<close>

definition checkChange :: "'s Objecticon \<Rightarrow> opts \<Rightarrow> string \<Rightarrow> heap \<Rightarrow> change \<Rightarrow> nat \<times> signal" where
  "checkChange slf opts act h c =
     (case path c of
        None \<Rightarrow> (0, Thrown (TypeError ''Cannot read property join of undefined''))
      | Some p \<Rightarrow>
          checkRules slf
            (opts\<lparr>action := Some act, field := Some (join_with ''.'' (map seg_key p)),
                  change := Some c\<rparr>) h)"

text \<open>
  \<open>async.each\<close> over the checks of the changes. An exception raised by a check leaves
  \<open>async.each\<close> at once, and the stage ends with it.
\<close>

fun first_thrown :: "(nat \<times> signal) list \<Rightarrow> error option" where
  "first_thrown [] = None"
| "first_thrown ((t, Thrown e) # rs) = Some e"
| "first_thrown (r # rs) = first_thrown rs"

fun signal_outcome :: "nat \<times> signal \<Rightarrow> outcome" where
  "signal_outcome (t, Failed e) = (t, Some e)"
| "signal_outcome (t, sig) = (t, None)"

definition each_signal :: "(nat \<times> signal) list \<Rightarrow> signal" where
  "each_signal rs =
     (case first_thrown rs of
        Some e \<Rightarrow> Thrown e
      | None \<Rightarrow> (case snd (async_each (map signal_outcome rs)) of
                   None \<Rightarrow> Continue | Some e \<Rightarrow> Failed e))"

definition checkDiffRules :: "string \<Rightarrow> 's stage" where
  "checkDiffRules act w =
     (case changes (ctx w) of
        None \<Rightarrow> (Thrown (TypeError ''Cannot read property length of undefined''), w)
      | Some cs \<Rightarrow> (each_signal (map (checkChange (engine w) (ctx w) act (mem w)) cs), w))"


subsection \<open>Fetching and creating\<close>

text \<open>What a driver or the factory hands back is built in the heap as new objects.\<close>

fun alloc_json :: "json \<Rightarrow> heap \<Rightarrow> jsval \<times> heap"
  and alloc_elems :: "json list \<Rightarrow> heap \<Rightarrow> jsval list \<times> heap"
  and alloc_fields :: "(string \<times> json) list \<Rightarrow> heap \<Rightarrow> (string \<times> jsval) list \<times> heap" where
  "alloc_json JsonNull h = (JNull, h)"
| "alloc_json (JsonBool b) h = (JBool b, h)"
| "alloc_json (JsonNum n) h = (JNum n, h)"
| "alloc_json (JsonStr str) h = (JStr str, h)"
| "alloc_json (JsonDate t) h = (case alloc h (DateObj t []) of (a, h1) \<Rightarrow> (JRef a, h1))"
| "alloc_json (JsonArr js) h =
     (case alloc_elems js h of (vs, h1) \<Rightarrow>
        (case alloc h1 (Arr vs []) of (a, h2) \<Rightarrow> (JRef a, h2)))"
| "alloc_json (JsonObj fs) h =
     (case alloc_fields fs h of (ps, h1) \<Rightarrow>
        (case alloc h1 (Obj ps) of (a, h2) \<Rightarrow> (JRef a, h2)))"
| "alloc_elems [] h = ([], h)"
| "alloc_elems (j # js) h =
     (case alloc_json j h of (v, h1) \<Rightarrow>
        (case alloc_elems js h1 of (vs, h2) \<Rightarrow> (v # vs, h2)))"
| "alloc_fields [] h = ([], h)"
| "alloc_fields ((k, j) # fs) h =
     (case alloc_json j h of (v, h1) \<Rightarrow>
        (case alloc_fields fs h1 of (ps, h2) \<Rightarrow> ((k, v) # ps, h2)))"

definition createObject :: "'s stage" where
  "createObject w =
     (case (case create (ds (engine w)) (type (ctx w)) of
              None \<Rightarrow> (JNull, mem w)
            | Some j \<Rightarrow> alloc_json j (mem w)) of
        (made, h1) \<Rightarrow>
          (case js_set h1 made (Key ''id'') (JStr (next_uuid w)) of
             Inl e \<Rightarrow> (Thrown e, w\<lparr>ctx := (ctx w)\<lparr>results := made\<rparr>, mem := h1\<rparr>)
           | Inr h2 \<Rightarrow>
               (Continue, w\<lparr>ctx := (ctx w)\<lparr>results := made, creating := True\<rparr>, mem := h2\<rparr>)))"

definition getObject :: "'s stage" where
  "getObject w =
     (case DataStore_get (ds (engine w)) (type (ctx w)) (ById (id' (ctx w))) EmptyOptions of
        (Inl e, ds') \<Rightarrow> (Failed e, w\<lparr>engine := (engine w)\<lparr>ds := ds'\<rparr>\<rparr>)
      | (Inr j, ds') \<Rightarrow>
          (case alloc_json j (mem w) of
             (found, h1) \<Rightarrow>
               (let w1 = w\<lparr>engine := (engine w)\<lparr>ds := ds'\<rparr>, mem := h1\<rparr>
                in if \<not> (truthy found \<or> allowMissing (ctx w))
                   then (Failed (NotFound (type (ctx w)) (id' (ctx w))), w1)
                   else (case (if truthy found then (Continue, w1) else createObject w1) of
                           (Continue, w2) \<Rightarrow>
                             (Continue,
                              w2\<lparr>ctx := (ctx w2)\<lparr>results :=
                                    (if truthy (results (ctx w2)) then results (ctx w2)
                                     else found)\<rparr>\<rparr>)
                         | (sig, w2) \<Rightarrow> (sig, w2)))))"

subsection \<open>Applying the changes\<close>

fun apply_each :: "heap \<Rightarrow> jsval \<Rightarrow> change list \<Rightarrow> error option \<times> heap" where
  "apply_each h target [] = (None, h)"
| "apply_each h target (c # cs) =
     (case applyChange h target c of
        (Some e, h1) \<Rightarrow> (Some e, h1)
      | (None, h1) \<Rightarrow> apply_each h1 target cs)"

definition applyChanges :: "'s stage" where
  "applyChanges w =
     (case extend_deep (stack_limit w) (mem w) (results (ctx w)) of
        (Inl e, h1) \<Rightarrow> (Thrown e, w\<lparr>mem := h1\<rparr>)
      | (Inr target, h1) \<Rightarrow>
          (let w1 = w\<lparr>ctx := (ctx w)\<lparr>updated := JRef target\<rparr>, mem := h1\<rparr>
           in (case changes (ctx w) of
                 None \<Rightarrow> (Thrown (TypeError ''Cannot read property forEach of undefined''), w1)
               | Some cs \<Rightarrow>
                   (case apply_each h1 (JRef target) cs of
                      (Some e, h2) \<Rightarrow> (Thrown e, w1\<lparr>mem := h2\<rparr>)
                    | (None, h2) \<Rightarrow>
                        (if get_prop h2 target (Key ''updateAt'') \<noteq> JUndefined
                         then (case alloc h2 (DateObj (clock w) []) of
                                 (now, h3) \<Rightarrow>
                                   (case js_set h3 (JRef target) (Key ''updatedAt'') (JRef now) of
                                      Inl e \<Rightarrow> (Thrown e, w1\<lparr>mem := h3\<rparr>)
                                    | Inr h4 \<Rightarrow> (Continue, w1\<lparr>mem := h4\<rparr>)))
                         else (Continue, w1\<lparr>mem := h2\<rparr>))))))"

subsection \<open>Writing and the update pipeline\<close>

text \<open>
  \<open>_write\<close>: the store is given the updated object and, as metadata, the caller's metadata
  with the changes as \<open>diff\<close>; the stage goes on from the callback of the store.
\<close>

definition write' :: "'s stage" where
  "write' w =
     (let res = DataStore_put (ds (engine w)) (clock w) (type (ctx w)) (updated (ctx w))
                  (Some (Meta (meta (ctx w)) (changes (ctx w)))) (mem w);
          w1 = w\<lparr>engine := (engine w)\<lparr>ds := store res\<rparr>\<rparr>
      in (case reported res of
            Some e \<Rightarrow> (Failed e, w1)
          | None \<Rightarrow> (Continue, w1\<lparr>ctx := (ctx w1)\<lparr>results := updated (ctx w1)\<rparr>\<rparr>)))"

definition update' :: "'s stage" where
  "update' = async_series [applyChanges, checkTypeRules ''write'', checkDiffRules ''write'', write']"

text \<open>
  The answer of a public operation: the arguments its callback is called with, the error
  and the result, or the exception that left the operation before any callback.
\<close>

datatype reply = Reply "error option" "jsval option" | Raised error

definition emit :: "event_name \<Rightarrow> jsval \<Rightarrow> 's world \<Rightarrow> 's world" where
  "emit name obj w = w\<lparr>engine := (engine w)\<lparr>emitted := emitted (engine w) @ [(name, obj)]\<rparr>\<rparr>"

text \<open>
  \<open>Objecticon.prototype.update\<close>: the context is marked to allow a missing object, the
  object is fetched and the update pipeline runs. After the callback has been given the
  result, the three events are emitted; reading the id of the result for them can raise.
\<close>

definition update :: "'s world \<Rightarrow> reply \<times> 's world" where
  "update w =
     (case async_series [getObject, update'] (w\<lparr>ctx := (ctx w)\<lparr>allowMissing := True\<rparr>\<rparr>) of
        (Thrown e, w1) \<Rightarrow> (Raised e, w1)
      | (Failed e, w1) \<Rightarrow> (Reply (Some e) None, w1)
      | (Continue, w1) \<Rightarrow>
          (Reply None (Some (results (ctx w1))),
           (case js_get (mem w1) (results (ctx w1)) (Key ''id'') of
              Inl e \<Rightarrow> w1
            | Inr ident \<Rightarrow>
                emit (UpdatedTypeId (type (ctx w1)) ident) (results (ctx w1))
                  (emit (UpdatedType (type (ctx w1))) (results (ctx w1))
                     (emit Updated (results (ctx w1)) w1)))))"

subsection \<open>Reading an object and the audit log\<close>

definition get :: "'s world \<Rightarrow> reply \<times> 's world" where
  "get w =
     (case async_series [getObject, checkTypeRules ''read''] (w\<lparr>ctx := (ctx w)\<lparr>results := JNull\<rparr>\<rparr>) of
        (Thrown e, w1) \<Rightarrow> (Raised e, w1)
      | (Failed e, w1) \<Rightarrow> (Reply (Some e) (Some (results (ctx w1))), w1)
      | (Continue, w1) \<Rightarrow> (Reply None (Some (results (ctx w1))), w1))"

definition log_limit :: "int option \<Rightarrow> int" where
  "log_limit l = min (case l of None \<Rightarrow> 10 | Some n \<Rightarrow> if n = 0 then 10 else n) 100"

definition getLog' :: "'s stage" where
  "getLog' w =
     (case DataStore_getLog (ds (engine w)) (type (ctx w)) (id' (ctx w))
             (LogOptions [(''createdAt'', - 1)] (log_limit (limit (ctx w)))) of
        (Inl e, ds') \<Rightarrow> (Failed e, w\<lparr>engine := (engine w)\<lparr>ds := ds'\<rparr>\<rparr>)
      | (Inr j, ds') \<Rightarrow>
          (case alloc_json j (mem w) of
             (found, h1) \<Rightarrow>
               (Continue, w\<lparr>engine := (engine w)\<lparr>ds := ds'\<rparr>,
                            ctx := (ctx w)\<lparr>results := found\<rparr>, mem := h1\<rparr>)))"

definition getLog :: "'s world \<Rightarrow> reply \<times> 's world" where
  "getLog w =
     (case async_series [checkTypeRules ''log'', getLog'] w of
        (Thrown e, w1) \<Rightarrow> (Raised e, w1)
      | (Failed e, w1) \<Rightarrow> (Reply (Some e) None, w1)
      | (Continue, w1) \<Rightarrow> (Reply None (Some (results (ctx w1))), w1))"

text \<open>Three stubs, of which only the second answers \<open>get\<close>.\<close>

definition three_stubs :: "(string \<times> payload) list driver list" where
  "three_stubs =
     [stub_driver (Some ''query'') (0, None) JsonNull,
      stub_driver (Some ''get,search'') (0, None) (JsonStr ''x''),
      stub_driver None (0, None) JsonNull]"

text \<open>
  What each data driver reports when it is started on the write.
\<close>

definition put_outcome :: "'s DataStore \<Rightarrow> string \<Rightarrow> jsval \<Rightarrow> heap \<Rightarrow> nat \<Rightarrow> outcome" where
  "put_outcome self ty object h i =
     fst (put_fn (drivers self ! i) ty (ObjectPayload object) h (dstate (drivers self ! i)))"

definition delete_outcome :: "'s DataStore \<Rightarrow> string \<Rightarrow> jsval \<Rightarrow> nat \<Rightarrow> outcome" where
  "delete_outcome self ty ident i =
     fst (delete_fn (drivers self ! i) ty ident (dstate (drivers self ! i)))"

text \<open>The report that comes first among the failures: no failing driver reports earlier.\<close>

definition first_failure :: "(nat \<Rightarrow> outcome) \<Rightarrow> nat \<Rightarrow> error \<Rightarrow> bool" where
  "first_failure out n e =
     (\<exists>i < n. \<exists>t. out i = (t, Some e)
        \<and> (\<forall>j < n. \<forall>t' e'. out j = (t', Some e') \<longrightarrow> t < t' \<or> (t = t' \<and> i \<le> j)))"

text \<open>
  A store for concrete runs: the second data driver fails, the only logger fails too.
\<close>

definition stub_store :: "(string \<times> payload) list DataStore" where
  "stub_store =
     \<lparr>idField = ''id'',
      drivers = [stub_driver (Some ''get,query'') (0, None) JsonNull,
                 stub_driver None (0, Some (JsError ''B is down'')) JsonNull],
      loggers = [stub_driver (Some ''query'') (3, Some (JsError ''log is down'')) JsonNull],
      create = (\<lambda>ty. None)\<rparr>"

definition stub_heap :: heap where
  "stub_heap = [Obj [(''id'', JStr ''a''), (''name'', JStr ''foo'')]]"

text \<open>
  A strict engine without any rule on the stub store, a context for the type \<open>Widget\<close> and
  the id \<open>X\<close> that carries one change, the new name \<open>bar\<close>, and a rule that always passes.
\<close>

definition stub_engine :: "(string \<times> payload) list Objecticon" where
  "stub_engine = \<lparr>strict = True, rules = (\<lambda>t a f. None), ds = stub_store, emitted = []\<rparr>"

definition name_change :: change where
  "name_change = Change N (Some [Key ''name'']) JUndefined (JStr ''bar'') 0 None"

definition stub_opts :: opts where
  "stub_opts =
     \<lparr>type = ''Widget'', id' = JStr ''X'', results = JUndefined, overlay = JUndefined,
      changes = Some [name_change], updated = JUndefined, meta = JNull,
      allowMissing = False, creating = False, limit = None,
      action = None, field = None, change = None\<rparr>"

definition stub_world :: "(string \<times> payload) list world" where
  "stub_world =
     \<lparr>engine = stub_engine, ctx = stub_opts, mem = [], clock = 5, next_uuid = ''u-1'',
      stack_limit = 10\<rparr>"





text \<open>
  An object that carries \<open>updatedAt\<close>, and an object that carries \<open>updateAt\<close> instead; each
  with an empty list of changes to apply to it.
\<close>

definition stamped_world :: "(string \<times> payload) list world" where
  "stamped_world =
     stub_world\<lparr>ctx := stub_opts\<lparr>results := JRef 0, changes := Some []\<rparr>,
                mem := [Obj [(''id'', JStr ''1''), (''updatedAt'', JRef 1)], DateObj 1 []]\<rparr>"

definition misspelt_world :: "(string \<times> payload) list world" where
  "misspelt_world =
     stub_world\<lparr>ctx := stub_opts\<lparr>results := JRef 0, changes := Some []\<rparr>,
                mem := [Obj [(''id'', JStr ''1''), (''updateAt'', JNum 0)]]\<rparr>"

text \<open>Data without structure, values that are references, and plain objects.\<close>

fun primitive :: "json \<Rightarrow> bool" where
  "primitive (JsonArr js) = False"
| "primitive (JsonObj fs) = False"
| "primitive (JsonDate t) = False"
| "primitive j = True"



text \<open>The time of the date that a value refers to.\<close>

definition time_of :: "heap \<Rightarrow> jsval \<Rightarrow> nat option" where
  "time_of h v =
     (case v of
        JRef a \<Rightarrow>
          (if a < length h then (case h ! a of DateObj t ps \<Rightarrow> Some t | _ \<Rightarrow> None) else None)
      | _ \<Rightarrow> None)"

text \<open>
  The values an object holds; the values a change can write, its right-hand side and
  those of its items; and the addresses a list of changes refers to.
\<close>

fun obj_vals :: "jsobj \<Rightarrow> jsval list" where
  "obj_vals (Obj ps) = map snd ps"
| "obj_vals (Arr xs ps) = xs @ map snd ps"
| "obj_vals (DateObj t ps) = map snd ps"



text \<open>
  \<open>reach h a b\<close>: the object at \<open>b\<close> is the object at \<open>a\<close> or is found from it by following
  references; \<open>reach_from h v b\<close>: the value \<open>v\<close> is a reference to an object that reaches
  \<open>b\<close>.
\<close>

inductive reach :: "heap \<Rightarrow> nat \<Rightarrow> nat \<Rightarrow> bool" for h :: heap where
  reach_self: "reach h a a"
| reach_step: "reach h a b \<Longrightarrow> b < length h \<Longrightarrow> JRef c \<in> set (obj_vals (h ! b)) \<Longrightarrow> reach h a c"


text \<open>
  For a set \<open>P\<close> of protected addresses: a value that does not refer into \<open>P\<close>; a heap in
  which \<open>P\<close> is allocated and holds plain objects and arrays only, and in which no object
  outside \<open>P\<close> refers into \<open>P\<close>; and a later heap that has every object of \<open>P\<close> as it was.
\<close>

definition val_ok :: "nat set \<Rightarrow> jsval \<Rightarrow> bool" where
  "val_ok P v = (case v of JRef r \<Rightarrow> r \<notin> P | _ \<Rightarrow> True)"



















section \<open>Properties of an object\<close>

lemma own_simps [simp]:
  "own [] k = JUndefined"
  "own ((k', v) # ps) k = (if k = k' then v else own ps k)"
  by (simp_all add: own_def)

section \<open>Read routing\<close>

lemma getAuthoritative_None:
  "getAuthoritative hs operation = None \<longleftrightarrow> (\<forall>d \<in> set hs. operation \<notin> set (authorities d))"
  by (induction hs) auto

lemma getAuthoritative_Some:
  "getAuthoritative hs operation = Some i \<longleftrightarrow>
     (i < length hs \<and> operation \<in> set (authorities (hs ! i))
      \<and> (\<forall>j < i. operation \<notin> set (authorities (hs ! j))))"
proof (induction hs arbitrary: i)
  case Nil
  then show ?case by simp
next
  case (Cons d hs)
  show ?case
  proof (cases "operation \<in> set (authorities d)")
    case True
    then show ?thesis by (cases i) auto
  next
    case False
    show ?thesis
    proof (cases i)
      case 0
      with False show ?thesis by auto
    next
      case (Suc k)
      have "(\<forall>j<Suc k. operation \<notin> set (authorities ((d # hs) ! j)))
            \<longleftrightarrow> (\<forall>j<k. operation \<notin> set (authorities (hs ! j)))"
        using False by (auto simp: less_Suc_eq_0_disj)
      with False Suc Cons.IH [of k] show ?thesis by auto
    qed
  qed
qed

lemma calls_driver_read:
  "calls (snd (driver_read operation ty crit options d)) = calls d @ [ReadCall operation ty crit options]"
  by (simp add: driver_read_def split: prod.splits)

lemma fst_driver_read:
  "fst (driver_read operation ty crit options d) = fst (read_fn d operation ty crit options (dstate d))"
  by (simp add: driver_read_def split: prod.splits)

text \<open>
  C5. A read is serviced by exactly one handler. When no handler of the store lists the
  operation in its authoritative tag, the read fails with the error
  \<open>No drivers available.\<close> and the handlers are left as they were. When exactly one
  handler lists it, the answer is that handler's answer, that handler records one more
  call, and every other handler is left untouched.
\<close>

theorem read_routing:
  fixes handlers :: "'s driver list"
  shows "((\<forall>d \<in> set handlers. operation \<notin> set (authorities d)) \<longrightarrow>
            handleReadOperation operation handlers ty crit options
              = (Inl (JsError ''No drivers available.''), handlers))
       \<and> (\<forall>i < length handlers.
             operation \<in> set (authorities (handlers ! i))
             \<and> (\<forall>j < length handlers. j \<noteq> i \<longrightarrow> operation \<notin> set (authorities (handlers ! j)))
             \<longrightarrow> (case handleReadOperation operation handlers ty crit options of
                    (r, hs') \<Rightarrow>
                      r = fst (read_fn (handlers ! i) operation ty crit options (dstate (handlers ! i)))
                      \<and> length hs' = length handlers
                      \<and> calls (hs' ! i) = calls (handlers ! i) @ [ReadCall operation ty crit options]
                      \<and> (\<forall>j < length handlers. j \<noteq> i \<longrightarrow> hs' ! j = handlers ! j)))"
proof (intro conjI impI allI)
  assume "\<forall>d \<in> set handlers. operation \<notin> set (authorities d)"
  then have "getAuthoritative handlers operation = None"
    by (simp add: getAuthoritative_None)
  then show "handleReadOperation operation handlers ty crit options
              = (Inl (JsError ''No drivers available.''), handlers)"
    by (simp add: handleReadOperation_def)
next
  fix i
  assume i: "i < length handlers"
    and a: "operation \<in> set (authorities (handlers ! i))
             \<and> (\<forall>j < length handlers. j \<noteq> i \<longrightarrow> operation \<notin> set (authorities (handlers ! j)))"
  then have g: "getAuthoritative handlers operation = Some i"
    by (auto simp: getAuthoritative_Some)
  obtain r d' where eq: "driver_read operation ty crit options (handlers ! i) = (r, d')"
    by (cases "driver_read operation ty crit options (handlers ! i)")
  have c: "calls d' = calls (handlers ! i) @ [ReadCall operation ty crit options]"
    using calls_driver_read [of operation ty crit options "handlers ! i"] eq by simp
  have r: "r = fst (read_fn (handlers ! i) operation ty crit options (dstate (handlers ! i)))"
    using fst_driver_read [of operation ty crit options "handlers ! i"] eq by simp
  show "case handleReadOperation operation handlers ty crit options of
                    (r, hs') \<Rightarrow>
                      r = fst (read_fn (handlers ! i) operation ty crit options (dstate (handlers ! i)))
                      \<and> length hs' = length handlers
                      \<and> calls (hs' ! i) = calls (handlers ! i) @ [ReadCall operation ty crit options]
                      \<and> (\<forall>j < length handlers. j \<noteq> i \<longrightarrow> hs' ! j = handlers ! j)"
    using i g eq c r by (simp add: handleReadOperation_def)
qed

theorem read_routing_witness:
  "(case handleReadOperation ''get'' three_stubs ''widget'' (ById (JStr ''7'')) EmptyOptions of
      (r, hs') \<Rightarrow>
        r = Inr (JsonStr ''x'')
        \<and> calls (hs' ! 1) = [ReadCall ''get'' ''widget'' (ById (JStr ''7'')) EmptyOptions]
        \<and> hs' ! 0 = three_stubs ! 0 \<and> hs' ! 2 = three_stubs ! 2)
   \<and> handleReadOperation ''delete'' three_stubs ''widget'' (ById (JStr ''7'')) EmptyOptions
       = (Inl (JsError ''No drivers available.''), three_stubs)"
proof -
  have a: "\<forall>d \<in> set three_stubs. ''delete'' \<notin> set (authorities d)"
    by (simp add: three_stubs_def authorities_def stub_driver_def)
  have b: "(1::nat) < length three_stubs" by (simp add: three_stubs_def)
  have c: "''get'' \<in> set (authorities (three_stubs ! 1))
             \<and> (\<forall>j < length three_stubs. j \<noteq> 1 \<longrightarrow> ''get'' \<notin> set (authorities (three_stubs ! j)))"
    by (simp add: three_stubs_def authorities_def stub_driver_def All_less_Suc2)
  note r = read_routing [of three_stubs _ "''widget''" "ById (JStr ''7'')" EmptyOptions]
  have 1: "handleReadOperation ''delete'' three_stubs ''widget'' (ById (JStr ''7'')) EmptyOptions
            = (Inl (JsError ''No drivers available.''), three_stubs)"
    using r [THEN conjunct1, THEN mp, OF a] .
  have 2: "case handleReadOperation ''get'' three_stubs ''widget'' (ById (JStr ''7'')) EmptyOptions of
             (r, hs') \<Rightarrow>
               r = fst (read_fn (three_stubs ! 1) ''get'' ''widget'' (ById (JStr ''7'')) EmptyOptions
                          (dstate (three_stubs ! 1)))
               \<and> length hs' = length three_stubs
               \<and> calls (hs' ! 1) = calls (three_stubs ! 1)
                    @ [ReadCall ''get'' ''widget'' (ById (JStr ''7'')) EmptyOptions]
               \<and> (\<forall>j < length three_stubs. j \<noteq> 1 \<longrightarrow> hs' ! j = three_stubs ! j)"
    using r [THEN conjunct2, THEN spec, THEN mp, THEN mp, OF b c] .
  have d: "fst (read_fn (three_stubs ! 1) ''get'' ''widget'' (ById (JStr ''7'')) EmptyOptions
                          (dstate (three_stubs ! 1))) = Inr (JsonStr ''x'')"
          "calls (three_stubs ! 1) = []" "length three_stubs = 3"
    by (simp_all add: three_stubs_def stub_driver_def)
  from 2 have "case handleReadOperation ''get'' three_stubs ''widget'' (ById (JStr ''7'')) EmptyOptions of
      (r, hs') \<Rightarrow>
        r = Inr (JsonStr ''x'')
        \<and> calls (hs' ! 1) = [ReadCall ''get'' ''widget'' (ById (JStr ''7'')) EmptyOptions]
        \<and> hs' ! 0 = three_stubs ! 0 \<and> hs' ! 2 = three_stubs ! 2"
    unfolding d by (auto split: prod.splits)
  with 1 show ?thesis by simp
qed

section \<open>Facts about async.each\<close>

lemma earliest_None: "earliest rs = None \<longleftrightarrow> (\<forall>r \<in> set rs. snd r = None)"
proof (induction rs rule: earliest.induct)
  case 1
  then show ?case by simp
next
  case (2 t rs)
  then show ?case by simp
next
  case (3 t e rs)
  then show ?case by (simp split: option.splits prod.splits)
qed

lemma earliest_Some:
  "earliest rs = Some (t, e) \<Longrightarrow>
     \<exists>i < length rs. rs ! i = (t, Some e)
       \<and> (\<forall>j < length rs. \<forall>t' e'. rs ! j = (t', Some e') \<longrightarrow> t < t' \<or> (t = t' \<and> i \<le> j))"
proof (induction rs arbitrary: t e rule: earliest.induct)
  case 1
  then show ?case by simp
next
  case (2 u rs)
  then obtain i where i: "i < length rs" "rs ! i = (t, Some e)"
    and m: "\<forall>j < length rs. \<forall>t' e'. rs ! j = (t', Some e') \<longrightarrow> t < t' \<or> (t = t' \<and> i \<le> j)"
    by auto
  have "\<forall>j < length ((u, None) # rs). \<forall>t' e'. ((u, None) # rs) ! j = (t', Some e')
          \<longrightarrow> t < t' \<or> (t = t' \<and> Suc i \<le> j)"
  proof (intro allI impI)
    fix j t' e'
    assume j: "j < length ((u, None) # rs)" and eq: "((u, None) # rs) ! j = (t', Some e')"
    then obtain k where k: "j = Suc k" by (cases j) auto
    with j eq m show "t < t' \<or> (t = t' \<and> Suc i \<le> j)" by auto
  qed
  with i show ?case by (intro exI [of _ "Suc i"]) simp
next
  case (3 u x rs)
  show ?case
  proof (cases "earliest rs")
    case None
    with 3 have te: "t = u" "e = x" by auto
    have "\<forall>r \<in> set rs. snd r = None" using None by (simp add: earliest_None)
    then have "\<forall>j < length rs. snd (rs ! j) = None" by simp
    then have "\<forall>j < length ((u, Some x) # rs). \<forall>t' e'. ((u, Some x) # rs) ! j = (t', Some e')
          \<longrightarrow> t < t' \<or> (t = t' \<and> 0 \<le> j)"
      using te by (auto simp: nth_Cons split: nat.splits)
    then show ?thesis using te by (intro exI [of _ 0]) simp
  next
    case (Some p)
    obtain t1 e1 where p: "p = (t1, e1)" by (cases p)
    from "3.IH" [of t1 e1] Some p obtain i where i: "i < length rs" "rs ! i = (t1, Some e1)"
      and m: "\<forall>j < length rs. \<forall>t' e'. rs ! j = (t', Some e') \<longrightarrow> t1 < t' \<or> (t1 = t' \<and> i \<le> j)"
      by auto
    show ?thesis
    proof (cases "t1 < u")
      case True
      with 3 Some p have te: "t = t1" "e = e1" by auto
      have "\<forall>j < length ((u, Some x) # rs). \<forall>t' e'. ((u, Some x) # rs) ! j = (t', Some e')
          \<longrightarrow> t < t' \<or> (t = t' \<and> Suc i \<le> j)"
        using m True te by (auto simp: nth_Cons split: nat.splits)
      with i te show ?thesis by (intro exI [of _ "Suc i"]) simp
    next
      case False
      with 3 Some p have te: "t = u" "e = x" by auto
      have "\<forall>j < length ((u, Some x) # rs). \<forall>t' e'. ((u, Some x) # rs) ! j = (t', Some e')
          \<longrightarrow> t < t' \<or> (t = t' \<and> 0 \<le> j)"
        using m False te by (fastforce simp: nth_Cons split: nat.splits)
      then show ?thesis using te by (intro exI [of _ 0]) simp
    qed
  qed
qed

lemma async_each_success:
  "snd (async_each rs) = None \<longleftrightarrow> (\<forall>i < length rs. snd (rs ! i) = None)"
proof (cases "earliest rs")
  case None
  then have "\<forall>r \<in> set rs. snd r = None" by (simp add: earliest_None)
  then have "\<forall>i < length rs. snd (rs ! i) = None" by simp
  with None show ?thesis by (simp add: async_each_def)
next
  case (Some p)
  then have "\<not> (\<forall>r \<in> set rs. snd r = None)"
    using earliest_None [of rs] by simp
  then have "\<not> (\<forall>i < length rs. snd (rs ! i) = None)"
    by (metis in_set_conv_nth)
  then show ?thesis using Some
    by (simp add: async_each_def split: prod.splits)
qed

lemma async_each_first_error:
  assumes "snd (async_each rs) = Some e"
  shows "\<exists>i < length rs. \<exists>t. rs ! i = (t, Some e)
           \<and> (\<forall>j < length rs. \<forall>t' e'. rs ! j = (t', Some e') \<longrightarrow> t < t' \<or> (t = t' \<and> i \<le> j))"
proof (cases "earliest rs")
  case None
  with assms show ?thesis by (simp add: async_each_def)
next
  case (Some p)
  obtain t x where p: "p = (t, x)" by (cases p)
  with Some assms have "x = e" by (simp add: async_each_def)
  with Some p have "earliest rs = Some (t, e)" by simp
  from earliest_Some [OF this] show ?thesis by blast
qed

section \<open>Writes and the audit log\<close>

lemma driver_put_simps:
  "fst (driver_put ty obj h d) = fst (put_fn d ty obj h (dstate d))"
  "calls (snd (driver_put ty obj h d)) = calls d @ [PutCall ty obj]"
  "dstate (snd (driver_put ty obj h d)) = snd (put_fn d ty obj h (dstate d))"
  by (simp_all add: driver_put_def split: prod.splits)

lemma driver_delete_simps:
  "fst (driver_delete ty ident d) = fst (delete_fn d ty ident (dstate d))"
  "calls (snd (driver_delete ty ident d)) = calls d @ [DeleteCall ty ident]"
  "dstate (snd (driver_delete ty ident d)) = snd (delete_fn d ty ident (dstate d))"
  by (simp_all add: driver_delete_def split: prod.splits)

lemma drivers_after_put:
  "drivers (store (DataStore_put self now ty object m h))
     = map (\<lambda>d. snd (driver_put ty (ObjectPayload object) h d)) (drivers self)"
  by (simp add: DataStore_put_def DataStore_log_def Let_def split: sum.splits)

lemma reported_put:
  "reported (DataStore_put self now ty object m h)
     = snd (async_each (map (\<lambda>d. fst (put_fn d ty (ObjectPayload object) h (dstate d))) (drivers self)))"
  by (simp add: DataStore_put_def Let_def driver_put_simps comp_def split: sum.splits)

lemma drivers_after_delete:
  "drivers (store (DataStore_delete self now ty ident m h))
     = map (\<lambda>d. snd (driver_delete ty ident d)) (drivers self)"
  by (simp add: DataStore_delete_def DataStore_log_def Let_def)

lemma reported_delete:
  "reported (DataStore_delete self now ty ident m h)
     = snd (async_each (map (\<lambda>d. fst (delete_fn d ty ident (dstate d))) (drivers self)))"
  by (simp add: DataStore_delete_def Let_def driver_delete_simps comp_def)

text \<open>
  C4. A put and a delete start every registered data driver exactly once: each driver
  records one more call, and its backend is left as its own write left it, whatever the
  other drivers report, so nothing is rolled back. The caller is told of success exactly
  when every driver reports success; otherwise it is handed the error that is reported
  first. What is put is not \<open>null\<close> or \<open>undefined\<close>.
\<close>

theorem write_fan_out:
  fixes self :: "'s DataStore"
  shows "(object \<noteq> JNull \<and> object \<noteq> JUndefined \<longrightarrow>
          (let res = DataStore_put self now ty object m h;
              after = drivers (store res); n = length (drivers self)
          in length after = n
             \<and> (\<forall>i < n. calls (after ! i) = calls (drivers self ! i) @ [PutCall ty (ObjectPayload object)])
             \<and> (\<forall>i < n. dstate (after ! i)
                          = snd (put_fn (drivers self ! i) ty (ObjectPayload object) h
                                   (dstate (drivers self ! i))))
             \<and> (reported res = None \<longleftrightarrow> (\<forall>i < n. snd (put_outcome self ty object h i) = None))
             \<and> (\<forall>e. reported res = Some e \<longrightarrow> first_failure (put_outcome self ty object h) n e)))
       \<and> (let res = DataStore_delete self now ty ident m h;
              after = drivers (store res); n = length (drivers self)
          in length after = n
             \<and> (\<forall>i < n. calls (after ! i) = calls (drivers self ! i) @ [DeleteCall ty ident])
             \<and> (\<forall>i < n. dstate (after ! i)
                          = snd (delete_fn (drivers self ! i) ty ident (dstate (drivers self ! i))))
             \<and> (reported res = None \<longleftrightarrow> (\<forall>i < n. snd (delete_outcome self ty ident i) = None))
             \<and> (\<forall>e. reported res = Some e \<longrightarrow> first_failure (delete_outcome self ty ident) n e))"
proof -
  let ?po = "map (\<lambda>d. fst (put_fn d ty (ObjectPayload object) h (dstate d))) (drivers self)"
  let ?do = "map (\<lambda>d. fst (delete_fn d ty ident (dstate d))) (drivers self)"
  have po: "\<forall>i < length (drivers self). ?po ! i = put_outcome self ty object h i"
    by (simp add: put_outcome_def)
  have dd: "\<forall>i < length (drivers self). ?do ! i = delete_outcome self ty ident i"
    by (simp add: delete_outcome_def)
  have p1: "reported (DataStore_put self now ty object m h) = None
            \<longleftrightarrow> (\<forall>i < length (drivers self). snd (put_outcome self ty object h i) = None)"
    using async_each_success [of ?po] po by (simp add: reported_put)
  have p2: "\<forall>e. reported (DataStore_put self now ty object m h) = Some e
            \<longrightarrow> first_failure (put_outcome self ty object h) (length (drivers self)) e"
  proof (intro allI impI)
    fix e assume "reported (DataStore_put self now ty object m h) = Some e"
    then have "snd (async_each ?po) = Some e" by (simp add: reported_put)
    from async_each_first_error [OF this] po
    show "first_failure (put_outcome self ty object h) (length (drivers self)) e"
      unfolding first_failure_def by auto
  qed
  have d1: "reported (DataStore_delete self now ty ident m h) = None
            \<longleftrightarrow> (\<forall>i < length (drivers self). snd (delete_outcome self ty ident i) = None)"
    using async_each_success [of ?do] dd by (simp add: reported_delete)
  have d2: "\<forall>e. reported (DataStore_delete self now ty ident m h) = Some e
            \<longrightarrow> first_failure (delete_outcome self ty ident) (length (drivers self)) e"
  proof (intro allI impI)
    fix e assume "reported (DataStore_delete self now ty ident m h) = Some e"
    then have "snd (async_each ?do) = Some e" by (simp add: reported_delete)
    from async_each_first_error [OF this] dd
    show "first_failure (delete_outcome self ty ident) (length (drivers self)) e"
      unfolding first_failure_def by auto
  qed
  show ?thesis
    unfolding Let_def
    using p1 p2 d1 d2
    by (simp add: drivers_after_put drivers_after_delete driver_put_simps driver_delete_simps)
qed






lemma stub_put_facts:
  "reported (DataStore_put stub_store 5 ''widget'' (JRef 0) None stub_heap) = Some (JsError ''B is down'')"
  "length (drivers stub_store) = 2"
  "put_fn (drivers stub_store ! 0) ''widget'' (ObjectPayload (JRef 0)) stub_heap
      (dstate (drivers stub_store ! 0)) = ((0, None), [(''widget'', ObjectPayload (JRef 0))])"
  "calls (drivers stub_store ! 1) = []"
  by (simp_all add: reported_put stub_store_def stub_driver_def async_each_def)

theorem write_fan_out_witness:
  "first_failure (put_outcome stub_store ''widget'' (JRef 0) stub_heap) 2 (JsError ''B is down'')
   \<and> dstate (drivers (store (DataStore_put stub_store 5 ''widget'' (JRef 0) None stub_heap)) ! 0)
       = [(''widget'', ObjectPayload (JRef 0))]
   \<and> calls (drivers (store (DataStore_put stub_store 5 ''widget'' (JRef 0) None stub_heap)) ! 1)
       = [PutCall ''widget'' (ObjectPayload (JRef 0))]"
proof -
  have o: "JRef 0 \<noteq> JNull \<and> JRef 0 \<noteq> JUndefined" by simp
  note w = write_fan_out [of "JRef 0" stub_store 5 "''widget''" None stub_heap,
                          THEN conjunct1, THEN mp, OF o, unfolded Let_def]
  from w have "\<forall>e. reported (DataStore_put stub_store 5 ''widget'' (JRef 0) None stub_heap) = Some e
      \<longrightarrow> first_failure (put_outcome stub_store ''widget'' (JRef 0) stub_heap) (length (drivers stub_store)) e"
    by (elim conjE)
  then have 1: "first_failure (put_outcome stub_store ''widget'' (JRef 0) stub_heap) 2 (JsError ''B is down'')"
    using stub_put_facts(1,2) by auto
  from w have "\<forall>i < length (drivers stub_store).
      dstate (drivers (store (DataStore_put stub_store 5 ''widget'' (JRef 0) None stub_heap)) ! i)
        = snd (put_fn (drivers stub_store ! i) ''widget'' (ObjectPayload (JRef 0)) stub_heap
                 (dstate (drivers stub_store ! i)))"
    by (elim conjE)
  then have 2: "dstate (drivers (store (DataStore_put stub_store 5 ''widget'' (JRef 0) None stub_heap)) ! 0)
       = [(''widget'', ObjectPayload (JRef 0))]"
    using stub_put_facts(2,3) by simp
  from w have "\<forall>i < length (drivers stub_store).
      calls (drivers (store (DataStore_put stub_store 5 ''widget'' (JRef 0) None stub_heap)) ! i)
        = calls (drivers stub_store ! i) @ [PutCall ''widget'' (ObjectPayload (JRef 0))]"
    by (elim conjE)
  then have 3: "calls (drivers (store (DataStore_put stub_store 5 ''widget'' (JRef 0) None stub_heap)) ! 1)
       = [PutCall ''widget'' (ObjectPayload (JRef 0))]"
    using stub_put_facts(2,4) by simp
  from 1 2 3 show ?thesis by simp
qed


section \<open>The rule engine\<close>










lemma lower_Widget: "toLowerCase ''Widget'' = ''widget''" "toLowerCase ''WIDGET'' = ''widget''"
  "toLowerCase ''read'' = ''read''" "toLowerCase ''Read'' = ''read''" "toLowerCase ''write'' = ''write''"
  by (simp_all add: toLowerCase_def lower_char_def Let_def)

lemma not_inherited_stub:
  "\<not> inherited ''widget''" "\<not> inherited ''read''" "\<not> inherited ''write''" "\<not> inherited ''name''"
  by (simp_all add: inherited_def object_prototype_def)





section \<open>The audit log read\<close>





section \<open>Reading an object\<close>

lemma getObject_found:
  assumes "DataStore_get (ds (engine w)) (type (ctx w)) (ById (id' (ctx w))) EmptyOptions = (Inr j, ds')"
    and "alloc_json j (mem w) = (found, h1)"
    and "truthy found"
    and "results (ctx w) = JNull"
  shows "getObject w
           = (Continue, w\<lparr>engine := (engine w)\<lparr>ds := ds'\<rparr>, mem := h1,
                           ctx := (ctx w)\<lparr>results := found\<rparr>\<rparr>)"
  using assms by (simp add: getObject_def Let_def truthy_def)

text \<open>
  C10. When the fetch by id of a \<open>get\<close> finds an object and the rule check for the action
  \<open>read\<close> then fails, the caller's callback is called with the error of the check and, as
  its result, with the object that was fetched.
\<close>

theorem get_denied_returns_object:
  assumes "DataStore_get (ds (engine w)) (type (ctx w)) (ById (id' (ctx w))) EmptyOptions = (Inr j, ds')"
    and "alloc_json j (mem w) = (found, h1)"
    and "truthy found"
    and "fst (checkTypeRules ''read''
               (w\<lparr>engine := (engine w)\<lparr>ds := ds'\<rparr>, mem := h1,
                   ctx := (ctx w)\<lparr>results := found\<rparr>\<rparr>)) = Failed e"
  shows "fst (get w) = Reply (Some e) (Some found)"
proof -
  let ?w0 = "w\<lparr>ctx := (ctx w)\<lparr>results := JNull\<rparr>\<rparr>"
  let ?w1 = "w\<lparr>engine := (engine w)\<lparr>ds := ds'\<rparr>, mem := h1, ctx := (ctx w)\<lparr>results := found\<rparr>\<rparr>"
  have g: "getObject ?w0 = (Continue, ?w1)"
    using getObject_found [of ?w0 j ds' found h1] assms(1-3) by simp
  obtain w2 where c: "checkTypeRules ''read'' ?w1 = (Failed e, w2)"
    using assms(4) by (cases "checkTypeRules ''read'' ?w1") simp
  then have "w2 = ?w1" by (simp add: checkTypeRules_def)
  with g c show ?thesis by (simp add: get_def)
qed

theorem get_denied_returns_object_witness:
  "fst (get (stub_world\<lparr>engine := stub_engine\<lparr>ds := stub_store\<lparr>drivers :=
        [stub_driver (Some ''get'') (0, None) (JsonObj [(''id'', JsonStr ''X'')])]\<rparr>\<rparr>\<rparr>))
     = Reply (Some permission_denied) (Some (JRef 0))"
proof -
  let ?d = "stub_driver (Some ''get'') (0, None) (JsonObj [(''id'', JsonStr ''X'')])"
  let ?w = "stub_world\<lparr>engine := stub_engine\<lparr>ds := stub_store\<lparr>drivers := [?d]\<rparr>\<rparr>\<rparr>"
  let ?ds' = "stub_store\<lparr>drivers := [?d\<lparr>calls := [ReadCall ''get'' ''Widget'' (ById (JStr ''X'')) EmptyOptions]\<rparr>]\<rparr>"
  have a: "DataStore_get (ds (engine ?w)) (type (ctx ?w)) (ById (id' (ctx ?w))) EmptyOptions
             = (Inr (JsonObj [(''id'', JsonStr ''X'')]), ?ds')"
    by (simp add: DataStore_get_def DataStore_read_def handleReadOperation_def driver_read_def
          stub_world_def stub_engine_def stub_store_def stub_driver_def stub_opts_def authorities_def)
  have b: "alloc_json (JsonObj [(''id'', JsonStr ''X'')]) (mem ?w) = (JRef 0, [Obj [(''id'', JStr ''X'')]])"
    by (simp add: stub_world_def alloc_def)
  have c: "truthy (JRef 0)" by (simp add: truthy_def)
  have d: "fst (checkTypeRules ''read''
               (?w\<lparr>engine := (engine ?w)\<lparr>ds := ?ds'\<rparr>, mem := [Obj [(''id'', JStr ''X'')]],
                   ctx := (ctx ?w)\<lparr>results := JRef 0\<rparr>\<rparr>)) = Failed permission_denied"
    by (simp add: checkTypeRules_def checkRules_def Let_def stub_world_def stub_engine_def
          stub_opts_def lower_Widget not_inherited_stub lookup_rules_def object_prototype_def)
  from get_denied_returns_object [OF a b c d] show ?thesis .
qed

section \<open>What a protected set of objects is kept from\<close>




lemma val_ok_ref [simp]: "val_ok P (JRef a) \<longleftrightarrow> a \<notin> P"
  by (simp add: val_ok_def)



lemma set_update_subset: "set (AList.update k v al) \<subseteq> insert (k, v) (set al)"
  by (induction al) auto





























lemma reach_trans: "reach h b c \<Longrightarrow> reach h a b \<Longrightarrow> reach h a c"
  by (induction rule: reach.induct) (auto intro: reach.intros)

section \<open>The copy that extend makes\<close>






















section \<open>Applying changes and the input object\<close>





lemmas run_defs = stub_world_def stub_opts_def applyChanges_def
          extend_deep_def alloc_def get_prop_def clone_for_def applyChange_def
          apply_at_def assign_def nth_or_undefined_def arr_set_def named_def key_index_def







text \<open>
  C8 fails on the code: the object at address 0 carries \<open>updatedAt\<close>, a date of the time 1;
  after the changes (none) are applied at time 5, the copy still holds the date of the
  time 1. The stamp is guarded by the property \<open>updateAt\<close>, which the object does not have.
  And an object that has \<open>updateAt\<close> and no \<open>updatedAt\<close> comes out with \<open>updatedAt\<close> set to
  a date of the time 5.
\<close>

theorem updatedAt_not_stamped:
  "time_of (mem stamped_world) (get_prop (mem stamped_world) 0 (Key ''updatedAt'')) = Some 1
   \<and> results (ctx stamped_world) = JRef 0
   \<and> clock stamped_world = 5
   \<and> fst (applyChanges stamped_world) = Continue
   \<and> updated (ctx (snd (applyChanges stamped_world))) = JRef 2
   \<and> time_of (mem (snd (applyChanges stamped_world)))
        (get_prop (mem (snd (applyChanges stamped_world))) 2 (Key ''updatedAt'')) = Some 1
   \<and> get_prop (mem misspelt_world) 0 (Key ''updatedAt'') = JUndefined
   \<and> results (ctx misspelt_world) = JRef 0
   \<and> clock misspelt_world = 5
   \<and> fst (applyChanges misspelt_world) = Continue
   \<and> updated (ctx (snd (applyChanges misspelt_world))) = JRef 1
   \<and> time_of (mem (snd (applyChanges misspelt_world)))
        (get_prop (mem (snd (applyChanges misspelt_world))) 1 (Key ''updatedAt'')) = Some 5"
  by (simp add: stamped_world_def misspelt_world_def time_of_def run_defs)

section \<open>The update of an object that is not stored\<close>







































end
